theory Spec2Isabelle
  imports Main
begin

section \<open>JavaScript values as the widget sees them\<close>

text \<open>
  The widget (\<^verbatim>\<open>src/dinnercaster/dinnercaster.jsx\<close>) receives two host values,
  \<^verbatim>\<open>toolOutput\<close> and \<^verbatim>\<open>widgetState\<close>, both deserialised JSON, and keeps a view model
  \<^verbatim>\<open>{ meals: [...] }\<close>. Values are modelled untyped, as the code has them. An object is
  the list of its own properties in insertion order. Numbers are integers: the code only
  tests them for truthiness, nullishness and strict equality.
\<close>

datatype js =
    JUndefined
  | JNull
  | JBool bool
  | JNum int
  | JStr string
  | JArr "js list"
  | JObj "(string \<times> js) list"

datatype error = TypeError

text \<open>Sequencing of computations that may throw.\<close>

definition bindE :: "error + 'a \<Rightarrow> ('a \<Rightarrow> error + 'b) \<Rightarrow> error + 'b" where
  "bindE r f = (case r of Inl e \<Rightarrow> Inl e | Inr x \<Rightarrow> f x)"

text \<open>\<^verbatim>\<open>!!x\<close>: the values JavaScript treats as true in a condition.\<close>

fun truthy :: "js \<Rightarrow> bool" where
  "truthy JUndefined = False"
| "truthy JNull = False"
| "truthy (JBool b) = b"
| "truthy (JNum n) = (n \<noteq> 0)"
| "truthy (JStr s) = (s \<noteq> [])"
| "truthy (JArr xs) = True"
| "truthy (JObj kvs) = True"

fun nullish :: "js \<Rightarrow> bool" where
  "nullish JUndefined = True"
| "nullish JNull = True"
| "nullish v = False"

fun isObject :: "js \<Rightarrow> bool" where
  "isObject (JArr xs) = True"
| "isObject (JObj kvs) = True"
| "isObject v = False"

text \<open>
  \<^verbatim>\<open>x.p\<close> for the data properties the widget reads (\<^verbatim>\<open>meals\<close>, \<^verbatim>\<open>id\<close>, \<^verbatim>\<open>date\<close>,
  \<^verbatim>\<open>meal\<close>, \<^verbatim>\<open>notes\<close>): a TypeError on \<^verbatim>\<open>undefined\<close> and \<^verbatim>\<open>null\<close>, the property's
  value on an object that has it, \<^verbatim>\<open>undefined\<close> everywhere else.
\<close>

fun getProp :: "js \<Rightarrow> string \<Rightarrow> error + js" where
  "getProp JUndefined p = Inl TypeError"
| "getProp JNull p = Inl TypeError"
| "getProp (JObj kvs) p = Inr (case map_of kvs p of None \<Rightarrow> JUndefined | Some v \<Rightarrow> v)"
| "getProp v p = Inr JUndefined"

text \<open>\<^verbatim>\<open>x?.p\<close>: \<^verbatim>\<open>undefined\<close> when \<^verbatim>\<open>x\<close> is nullish, \<^verbatim>\<open>x.p\<close> otherwise.\<close>

fun optProp :: "js \<Rightarrow> string \<Rightarrow> js" where
  "optProp (JObj kvs) p = (case map_of kvs p of None \<Rightarrow> JUndefined | Some v \<Rightarrow> v)"
| "optProp v p = JUndefined"

text \<open>\<^verbatim>\<open>a || b\<close> and \<^verbatim>\<open>a ?? b\<close>.\<close>

definition orElse :: "js \<Rightarrow> js \<Rightarrow> js" where
  "orElse a b = (if truthy a then a else b)"

definition coalesce :: "js \<Rightarrow> js \<Rightarrow> js" where
  "coalesce a b = (if nullish a then b else a)"

text \<open>
  \<^verbatim>\<open>a === b\<close>. Exact whenever one operand is a primitive; two objects are compared by
  reference in JavaScript, which values do not carry, so the results below take the id
  that is looked for to be a primitive.
\<close>

definition strictEq :: "js \<Rightarrow> js \<Rightarrow> bool" where
  "strictEq a b = (a = b)"

text \<open>
  \<^verbatim>\<open>xs.map(f)\<close> and \<^verbatim>\<open>xs.filter(p)\<close>: only an array has the method, the callback runs on
  the elements in order and the first exception ends the call.
\<close>

fun mapE :: "('a \<Rightarrow> error + 'b) \<Rightarrow> 'a list \<Rightarrow> error + 'b list" where
  "mapE f [] = Inr []"
| "mapE f (x # xs) = bindE (f x) (\<lambda>y. bindE (mapE f xs) (\<lambda>ys. Inr (y # ys)))"

fun filterE :: "('a \<Rightarrow> error + bool) \<Rightarrow> 'a list \<Rightarrow> error + 'a list" where
  "filterE p [] = Inr []"
| "filterE p (x # xs) =
     bindE (p x) (\<lambda>keep. bindE (filterE p xs) (\<lambda>ys. Inr (if keep then x # ys else ys)))"

fun arrayMap :: "(nat \<Rightarrow> js \<Rightarrow> error + js) \<Rightarrow> js \<Rightarrow> error + js" where
  "arrayMap f (JArr xs) = bindE (mapE (\<lambda>(i, x). f i x) (enumerate 0 xs)) (\<lambda>ys. Inr (JArr ys))"
| "arrayMap f v = Inl TypeError"

fun arrayFilter :: "(js \<Rightarrow> error + bool) \<Rightarrow> js \<Rightarrow> error + js" where
  "arrayFilter p (JArr xs) = bindE (filterE p xs) (\<lambda>ys. Inr (JArr ys))"
| "arrayFilter p v = Inl TypeError"

section \<open>Identifier generation\<close>

text \<open>
  What the ambient sources return during one call of \<^verbatim>\<open>uid()\<close>: whether \<^verbatim>\<open>crypto\<close> exists
  and has \<^verbatim>\<open>randomUUID\<close> (and then the string it returns), the value of \<^verbatim>\<open>Date.now()\<close>,
  and the string \<^verbatim>\<open>Math.random().toString(36)\<close>.
\<close>

datatype crypto = NoCrypto | CryptoWithoutRandomUUID | Crypto string

record ambient =
  crypto :: crypto
  dateNow :: int
  mathRandom36 :: string

definition digitChar :: "nat \<Rightarrow> char" where
  "digitChar d = ''0123456789abcdefghijklmnopqrstuvwxyz'' ! (d mod 36)"

function digits :: "nat \<Rightarrow> nat \<Rightarrow> string" where
  "digits r n = (if r < 2 \<or> n < r then [digitChar n] else digits r (n div r) @ [digitChar (n mod r)])"
  by pat_completeness auto
termination
  by (relation "measure (\<lambda>(r, n). n)") auto

declare digits.simps [simp del]

text \<open>\<^verbatim>\<open>n.toString(r)\<close> and \<^verbatim>\<open>String(n)\<close> on an integer.\<close>

definition numToString :: "nat \<Rightarrow> int \<Rightarrow> string" where
  "numToString r i = (if i < 0 then CHR ''-'' # digits r (nat (- i)) else digits r (nat i))"

definition toUpperChar :: "char \<Rightarrow> char" where
  "toUpperChar c =
     (case map_of (zip ''abcdefghijklmnopqrstuvwxyz'' ''ABCDEFGHIJKLMNOPQRSTUVWXYZ'') c of
        Some u \<Rightarrow> u
      | None \<Rightarrow> c)"

definition toUpperCase :: "string \<Rightarrow> string" where
  "toUpperCase s = map toUpperChar s"

text \<open>\<^verbatim>\<open>s.slice(a, b)\<close> for \<^verbatim>\<open>0 <= a <= b\<close>.\<close>

definition slice :: "nat \<Rightarrow> nat \<Rightarrow> string \<Rightarrow> string" where
  "slice a b s = take (b - a) (drop a s)"

definition uidFallback :: "ambient \<Rightarrow> string" where
  "uidFallback amb = toUpperCase (numToString 36 (dateNow amb) @ slice 2 10 (mathRandom36 amb))"

definition uid :: "ambient \<Rightarrow> string" where
  "uid amb =
     (case crypto amb of
        Crypto u \<Rightarrow> u
      | _ \<Rightarrow> uidFallback amb)"

section \<open>Building the view model from a tool output\<close>

text \<open>
  \<^verbatim>\<open>addMealDefaults\<close>. The argument \<open>amb\<close> is what the ambient sources return while this
  record is processed; \<^verbatim>\<open>uid()\<close> is only called when the record has no id.
\<close>

definition typeofStringOrNull :: "js \<Rightarrow> js" where
  "typeofStringOrNull d = (case d of JStr s \<Rightarrow> JStr s | _ \<Rightarrow> JNull)"

definition addMealDefaults :: "ambient \<Rightarrow> js \<Rightarrow> error + js" where
  "addMealDefaults amb m =
     bindE (getProp m ''id'') (\<lambda>i.
     bindE (getProp m ''date'') (\<lambda>d.
     bindE (getProp m ''meal'') (\<lambda>ml.
     bindE (getProp m ''notes'') (\<lambda>n.
       Inr (JObj [(''id'', coalesce i (JStr (uid amb))),
                  (''date'', typeofStringOrNull d),
                  (''meal'', coalesce ml (JStr [])),
                  (''notes'', coalesce n (JStr []))])))))"

text \<open>
  \<^verbatim>\<open>buildInitialData(toolOutput)\<close>; \<open>amb i\<close> is the ambient state during the call of
  \<^verbatim>\<open>addMealDefaults\<close> on element \<open>i\<close>.
\<close>

definition buildInitialData :: "(nat \<Rightarrow> ambient) \<Rightarrow> js \<Rightarrow> error + js" where
  "buildInitialData amb toolOutput =
     bindE (arrayMap (\<lambda>i m. addMealDefaults (amb i) m)
              (orElse (optProp toolOutput ''meals'') (JArr [])))
       (\<lambda>ms. Inr (JObj [(''meals'', ms)]))"


section \<open>The view model and the user's edits\<close>

text \<open>
  \<^verbatim>\<open>new Date()\<close> as \<^verbatim>\<open>addMeal\<close> reads it: \<^verbatim>\<open>getFullYear()\<close>, \<^verbatim>\<open>getMonth()\<close> (0 to 11)
  and \<^verbatim>\<open>getDate()\<close>.
\<close>

record today =
  getFullYear :: int
  getMonth :: nat
  getDate :: nat

text \<open>\<^verbatim>\<open>s.padStart(2, '0')\<close>.\<close>

definition padStart2 :: "string \<Rightarrow> string" where
  "padStart2 s = (if length s < 2 then replicate (2 - length s) (CHR ''0'') @ s else s)"

definition dateStrOf :: "today \<Rightarrow> string" where
  "dateStrOf t =
     numToString 10 (getFullYear t) @ ''-'' @
     padStart2 (numToString 10 (int (getMonth t) + 1)) @ ''-'' @
     padStart2 (numToString 10 (int (getDate t)))"

text \<open>
  \<^verbatim>\<open>[first, ...v]\<close>: an array spreads to its elements and a string to its characters;
  no other value of this model is iterable.
\<close>

fun spreadIterable :: "js \<Rightarrow> error + js list" where
  "spreadIterable (JArr xs) = Inr xs"
| "spreadIterable (JStr s) = Inr (map (\<lambda>c. JStr [c]) s)"
| "spreadIterable v = Inl TypeError"

text \<open>
  \<^verbatim>\<open>addMeal\<close>: \<^verbatim>\<open>uid()\<close> and \<^verbatim>\<open>new Date()\<close> are read first, then the updater given to
  \<^verbatim>\<open>setData\<close> runs on the previous view model.
\<close>

definition blankMeal :: "ambient \<Rightarrow> today \<Rightarrow> js" where
  "blankMeal amb t =
     JObj [(''id'', JStr (uid amb)), (''meal'', JStr []), (''notes'', JStr []),
           (''date'', JStr (dateStrOf t))]"

definition addMeal :: "ambient \<Rightarrow> today \<Rightarrow> js \<Rightarrow> error + js" where
  "addMeal amb t prev =
     bindE (getProp prev ''meals'') (\<lambda>ms.
     bindE (spreadIterable ms) (\<lambda>xs.
       Inr (JObj [(''meals'', JArr (blankMeal amb t # xs))])))"

definition deleteMealById :: "js \<Rightarrow> js \<Rightarrow> error + js" where
  "deleteMealById ident prev =
     bindE (getProp prev ''meals'') (\<lambda>ms.
     bindE (arrayFilter (\<lambda>m. bindE (getProp m ''id'') (\<lambda>i. Inr (\<not> strictEq i ident))) ms) (\<lambda>xs.
       Inr (JObj [(''meals'', xs)])))"

text \<open>
  \<^verbatim>\<open>{ ...m, ...val }\<close>: the own properties of \<^verbatim>\<open>m\<close> in their order, each with the value
  \<^verbatim>\<open>val\<close> gives it when \<^verbatim>\<open>val\<close> has the key, followed by the properties of \<^verbatim>\<open>val\<close> that
  \<^verbatim>\<open>m\<close> lacks.
\<close>

fun ownProps :: "js \<Rightarrow> (string \<times> js) list" where
  "ownProps (JObj kvs) = kvs"
| "ownProps (JArr xs) = map (\<lambda>(i, x). (numToString 10 (int i), x)) (enumerate 0 xs)"
| "ownProps (JStr s) = map (\<lambda>(i, c). (numToString 10 (int i), JStr [c])) (enumerate 0 s)"
| "ownProps v = []"

definition spreadProps :: "(string \<times> js) list \<Rightarrow> (string \<times> js) list \<Rightarrow> (string \<times> js) list" where
  "spreadProps a b =
     map (\<lambda>(k, v). (k, case map_of b k of Some v' \<Rightarrow> v' | None \<Rightarrow> v)) a @
     filter (\<lambda>(k, v). k \<notin> fst ` set a) b"

definition spread :: "js \<Rightarrow> js \<Rightarrow> js" where
  "spread m val = JObj (spreadProps (ownProps m) (ownProps val))"

definition updateMealById :: "js \<Rightarrow> js \<Rightarrow> js \<Rightarrow> error + js" where
  "updateMealById ident val prev =
     bindE (getProp prev ''meals'') (\<lambda>ms.
     bindE (arrayMap (\<lambda>k m. bindE (getProp m ''id'') (\<lambda>i.
                        Inr (if strictEq i ident then spread m val else m))) ms) (\<lambda>xs.
       Inr (JObj [(''meals'', xs)])))"

text \<open>The records of a view model and their ids, in order (\<^verbatim>\<open>m?.id\<close> of each).\<close>

definition mealsOf :: "js \<Rightarrow> js list" where
  "mealsOf v = (case optProp v ''meals'' of JArr ms \<Rightarrow> ms | _ \<Rightarrow> [])"

definition mealIds :: "js \<Rightarrow> js list" where
  "mealIds v = map (\<lambda>m. optProp m ''id'') (mealsOf v)"

text \<open>
  A well-formed view model is what the widget itself produces: an object whose only
  property is \<^verbatim>\<open>meals\<close>, an array of objects.
\<close>

fun isRecord :: "js \<Rightarrow> bool" where
  "isRecord (JObj kvs) = True"
| "isRecord v = False"

fun wfView :: "js \<Rightarrow> bool" where
  "wfView (JObj [(k, JArr ms)]) = (k = ''meals'' \<and> list_all isRecord ms)"
| "wfView v = False"

section \<open>Date labels\<close>

text \<open>
  The platform's \<^verbatim>\<open>Date\<close>: for the arguments of \<^verbatim>\<open>new Date(y, monthIndex, day)\<close> (a
  \<^verbatim>\<open>NaN\<close> year is \<open>None\<close>) its \<^verbatim>\<open>getFullYear()\<close> (\<open>None\<close> for \<^verbatim>\<open>NaN\<close>) and its
  \<^verbatim>\<open>toLocaleDateString(undefined, opts)\<close>, and the year of \<^verbatim>\<open>new Date()\<close>.
\<close>

record fmtOpts =
  month :: string
  day :: string
  year :: "string option"
  weekday :: string

record dateApi =
  fullYear :: "int option \<Rightarrow> int \<Rightarrow> int \<Rightarrow> int option"
  currentYear :: int
  toLocaleDateString :: "int option \<Rightarrow> int \<Rightarrow> int \<Rightarrow> fmtOpts \<Rightarrow> string"

text \<open>\<^verbatim>\<open>s.split("-")\<close>.\<close>

fun splitOn :: "char \<Rightarrow> string \<Rightarrow> string list" where
  "splitOn c [] = [[]]"
| "splitOn c (x # xs) =
     (if x = c then [] # splitOn c xs
      else (case splitOn c xs of p # ps \<Rightarrow> (x # p) # ps | [] \<Rightarrow> [[x]]))"

text \<open>
  \<^verbatim>\<open>parseInt(s, 10)\<close>: leading white space, an optional sign, then the longest run of
  decimal digits; \<^verbatim>\<open>NaN\<close> (\<open>None\<close>) when there is no digit.
\<close>

definition isWhiteSpace :: "char \<Rightarrow> bool" where
  "isWhiteSpace c = (c \<in> set [CHR '' '', CHR 0x09, CHR 0x0A, CHR 0x0B, CHR 0x0C, CHR 0x0D])"

definition digitValue :: "char \<Rightarrow> nat option" where
  "digitValue c = map_of (zip ''0123456789'' [0 ..< 10]) c"

definition isDigit :: "char \<Rightarrow> bool" where
  "isDigit c = (digitValue c \<noteq> None)"

definition parseInt :: "string \<Rightarrow> int option" where
  "parseInt s =
     (let t = dropWhile isWhiteSpace s;
          neg = (case t of c # r \<Rightarrow> c = CHR ''-'' | [] \<Rightarrow> False);
          u = (case t of c # r \<Rightarrow> if c = CHR ''-'' \<or> c = CHR ''+'' then r else t | [] \<Rightarrow> []);
          ds = takeWhile isDigit u;
          n = foldl (\<lambda>a c. 10 * a + the (digitValue c)) 0 ds
      in if ds = [] then None else Some (if neg then - int n else int n))"

text \<open>\<^verbatim>\<open>n || 1\<close> on a number: \<^verbatim>\<open>NaN\<close> and \<^verbatim>\<open>0\<close> are falsy.\<close>

definition orOne :: "int option \<Rightarrow> int" where
  "orOne n = (case n of None \<Rightarrow> 1 | Some k \<Rightarrow> if k = 0 then 1 else k)"

definition formatDate :: "dateApi \<Rightarrow> js \<Rightarrow> error + string" where
  "formatDate api dateStr =
     (if \<not> truthy dateStr then Inr []
      else case dateStr of
        JStr s \<Rightarrow>
          (let parts = splitOn (CHR ''-'') s in
           if length parts \<noteq> 3 then Inr []
           else
             let y = parseInt (parts ! 0);
                 m = parseInt (parts ! 1);
                 d = parseInt (parts ! 2);
                 sameYear = (fullYear api y (orOne m - 1) (orOne d) = Some (currentYear api));
                 opts = (if sameYear
                         then \<lparr>month = ''short'', day = ''numeric'', year = None,
                               weekday = ''short''\<rparr>
                         else \<lparr>month = ''short'', day = ''numeric'', year = Some ''numeric'',
                               weekday = ''short''\<rparr>)
             in Inr (toLocaleDateString api y (orOne m - 1) (orOne d) opts))
      | _ \<Rightarrow> Inl TypeError)"

text \<open>\<^verbatim>\<open>{dateLabel && (...)}\<close> in \<^verbatim>\<open>MealItem\<close>: the date is rendered when the label is truthy.\<close>

definition dateShown :: "string \<Rightarrow> bool" where
  "dateShown dateLabel = truthy (JStr dateLabel)"


section \<open>The reconciler of the editable widget\<close>

text \<open>
  The initializer given to \<^verbatim>\<open>useWidgetState\<close> in \<^verbatim>\<open>App\<close>: cached widget state, then
  tool output, then the empty collection.
\<close>

definition hasMeals :: "js \<Rightarrow> bool" where
  "hasMeals x = truthy (optProp x ''meals'')"

definition emptyView :: js where
  "emptyView = JObj [(''meals'', JArr [])]"

definition initialData :: "(nat \<Rightarrow> ambient) \<Rightarrow> js \<Rightarrow> js \<Rightarrow> error + js" where
  "initialData amb widgetState toolOutput =
     (if hasMeals widgetState then Inr widgetState
      else if hasMeals toolOutput then buildInitialData amb toolOutput
      else Inr emptyView)"

text \<open>
  The body of the effect \<^verbatim>\<open>useEffect(() => { if (toolOutput?.meals) setData(...) },
  [toolOutput])\<close>, on the current view model.
\<close>

definition syncToolOutput :: "(nat \<Rightarrow> ambient) \<Rightarrow> js \<Rightarrow> js \<Rightarrow> error + js" where
  "syncToolOutput amb toolOutput current =
     (if hasMeals toolOutput then buildInitialData amb toolOutput else Inr current)"

text \<open>
  A value the host delivers, with the identity of the object that carries it. React
  compares the dependency \<^verbatim>\<open>[toolOutput]\<close> of two renders with \<^verbatim>\<open>Object.is\<close>: objects and
  arrays by identity, primitives by value.
\<close>

record delivered =
  ident :: nat
  content :: js

definition objectIs :: "delivered \<Rightarrow> delivered \<Rightarrow> bool" where
  "objectIs a b =
     (if isObject (content a) \<or> isObject (content b)
      then isObject (content a) \<and> isObject (content b) \<and> ident a = ident b
      else content a = content b)"

text \<open>
  Modelled from the spec: the hooks \<^verbatim>\<open>use-widget-state\<close> and \<^verbatim>\<open>use-openai-global\<close> are
  imported by the widget and are not among the sources. The view model is the cached
  state cell the spec describes: it starts as the initializer's value and holds what
  \<^verbatim>\<open>setData\<close> was last given. \<open>effectDeps\<close> is the \<^verbatim>\<open>toolOutput\<close> React saw when the effect
  last ran (\<open>None\<close> before the first run).
\<close>

record app =
  data :: js
  effectDeps :: "delivered option"

definition runEffect :: "(nat \<Rightarrow> ambient) \<Rightarrow> app \<Rightarrow> delivered \<Rightarrow> error + app" where
  "runEffect amb s t =
     bindE (syncToolOutput amb (content t) (data s)) (\<lambda>d.
       Inr \<lparr>data = d, effectDeps = Some t\<rparr>)"

text \<open>A render with \<^verbatim>\<open>toolOutput = t\<close>: the effect runs when its dependency changed.\<close>

definition deliverToolOutput :: "(nat \<Rightarrow> ambient) \<Rightarrow> app \<Rightarrow> delivered \<Rightarrow> error + app" where
  "deliverToolOutput amb s t =
     (case effectDeps s of
        None \<Rightarrow> runEffect amb s t
      | Some t0 \<Rightarrow> if objectIs t0 t then Inr s else runEffect amb s t)"

text \<open>The first render: the initializer, then the effect.\<close>

definition mount :: "(nat \<Rightarrow> ambient) \<Rightarrow> (nat \<Rightarrow> ambient) \<Rightarrow> js \<Rightarrow> delivered \<Rightarrow> error + app" where
  "mount ambInit ambEffect widgetState t =
     bindE (initialData ambInit widgetState (content t)) (\<lambda>d.
       deliverToolOutput ambEffect \<lparr>data = d, effectDeps = None\<rparr> t)"

text \<open>A user edit: an updater given to \<^verbatim>\<open>setData\<close>.\<close>

definition setData :: "(js \<Rightarrow> error + js) \<Rightarrow> app \<Rightarrow> error + app" where
  "setData f s = bindE (f (data s)) (\<lambda>d. Inr (s\<lparr>data := d\<rparr>))"

section \<open>The reconciler of the read-only widget\<close>

text \<open>
  The read-only variant of the widget keeps the meals it last applied in
  \<^verbatim>\<open>lastSyncedToolOutputRef\<close> (initially \<^verbatim>\<open>null\<close>) and applies a tool output only when its
  meals serialise differently. \<^verbatim>\<open>JSON.stringify\<close> is a parameter.
\<close>

record readOnlyApp =
  roData :: js
  lastSyncedToolOutputRef :: js

definition syncReadOnly :: "(js \<Rightarrow> string) \<Rightarrow> js \<Rightarrow> readOnlyApp \<Rightarrow> readOnlyApp" where
  "syncReadOnly stringify toolOutput s =
     (let toolOutputMeals = optProp toolOutput ''meals'';
          lastSyncedMeals = lastSyncedToolOutputRef s
      in if truthy toolOutputMeals \<and> stringify toolOutputMeals \<noteq> stringify lastSyncedMeals
         then \<lparr>roData = JObj [(''meals'', toolOutputMeals)],
               lastSyncedToolOutputRef = toolOutputMeals\<rparr>
         else s)"

text \<open>
  Its initializer: \<^verbatim>\<open>{ meals: widgetState?.meals || toolOutput?.meals || [] }\<close>.
\<close>

definition initialDataReadOnly :: "js \<Rightarrow> js \<Rightarrow> js" where
  "initialDataReadOnly widgetState toolOutput =
     JObj [(''meals'', orElse (optProp widgetState ''meals'')
                        (orElse (optProp toolOutput ''meals'') (JArr [])))]"

section \<open>The first editable variant\<close>

text \<open>
  The variant without dates and notes builds its view model from both sources,
  \<^verbatim>\<open>buildInitialData(toolOutput, widgetState)\<close>, in its initializer, and from the tool
  output alone, \<^verbatim>\<open>buildInitialData(toolOutput, undefined)\<close>, in its effect.
\<close>

definition addMealDefaultsV0 :: "ambient \<Rightarrow> js \<Rightarrow> error + js" where
  "addMealDefaultsV0 amb m =
     bindE (getProp m ''id'') (\<lambda>i.
     bindE (getProp m ''meal'') (\<lambda>ml.
       Inr (JObj [(''id'', coalesce i (JStr (uid amb))),
                  (''meal'', coalesce ml (JStr []))])))"

definition buildInitialDataV0 :: "(nat \<Rightarrow> ambient) \<Rightarrow> js \<Rightarrow> js \<Rightarrow> error + js" where
  "buildInitialDataV0 amb toolOutput widgetState =
     bindE (arrayMap (\<lambda>i m. addMealDefaultsV0 (amb i) m)
              (orElse (optProp widgetState ''meals'')
                 (orElse (optProp toolOutput ''meals'') (JArr []))))
       (\<lambda>ms. Inr (JObj [(''meals'', ms)]))"

section \<open>Sequences of operations\<close>

text \<open>
  What can happen to a mounted widget: the three edits, and the arrival of a tool output
  that React sees as changed, so that the effect runs.
\<close>

datatype action =
    AddMeal ambient today
  | UpdateMeal js js
  | DeleteMeal js
  | ToolOutput "nat \<Rightarrow> ambient" js

fun step :: "js \<Rightarrow> action \<Rightarrow> error + js" where
  "step v (AddMeal amb t) = addMeal amb t v"
| "step v (UpdateMeal i val) = updateMealById i val v"
| "step v (DeleteMeal i) = deleteMealById i v"
| "step v (ToolOutput amb toolOutput) = syncToolOutput amb toolOutput v"

fun run :: "js \<Rightarrow> action list \<Rightarrow> error + js" where
  "run v [] = Inr v"
| "run v (a # as) = bindE (step v a) (\<lambda>v'. run v' as)"

text \<open>
  The ids \<^verbatim>\<open>buildInitialData\<close> assigns to the records of a payload: the record's own id,
  or the generated one.
\<close>

definition assignedIds :: "(nat \<Rightarrow> ambient) \<Rightarrow> js list \<Rightarrow> js list" where
  "assignedIds amb ms =
     map (\<lambda>(i, m). coalesce (optProp m ''id'') (JStr (uid (amb i)))) (enumerate 0 ms)"

text \<open>
  What the widget does not check and the uniqueness of ids rests on: a generated id is
  not in use, an edit does not write the \<^verbatim>\<open>id\<close> field and addresses a primitive id, and
  a payload is an array of records whose assigned ids differ from each other.
\<close>

fun payloadDistinct :: "(nat \<Rightarrow> ambient) \<Rightarrow> js \<Rightarrow> bool" where
  "payloadDistinct amb (JArr ms) = (list_all isRecord ms \<and> distinct (assignedIds amb ms))"
| "payloadDistinct amb v = False"

fun fresh :: "js \<Rightarrow> action \<Rightarrow> bool" where
  "fresh v (AddMeal amb t) = (JStr (uid amb) \<notin> set (mealIds v))"
| "fresh v (UpdateMeal i val) = (\<not> isObject i \<and> ''id'' \<notin> fst ` set (ownProps val))"
| "fresh v (DeleteMeal i) = (\<not> isObject i)"
| "fresh v (ToolOutput amb toolOutput) =
     (if hasMeals toolOutput then payloadDistinct amb (optProp toolOutput ''meals'') else True)"




section \<open>Closed forms used in the statements\<close>

text \<open>
  The record \<^verbatim>\<open>addMealDefaults\<close> returns on a record that is neither \<^verbatim>\<open>null\<close> nor
  \<^verbatim>\<open>undefined\<close> (see \<open>addMealDefaults_total\<close>).
\<close>

definition defaulted :: "ambient \<Rightarrow> js \<Rightarrow> js" where
  "defaulted amb m =
     JObj [(''id'', coalesce (optProp m ''id'') (JStr (uid amb))),
           (''date'', typeofStringOrNull (optProp m ''date'')),
           (''meal'', coalesce (optProp m ''meal'') (JStr [])),
           (''notes'', coalesce (optProp m ''notes'') (JStr []))]"

text \<open>
  What \<^verbatim>\<open>updateMealById\<close> makes of one record: the spread when its id is the one looked
  for, the record itself otherwise (see \<open>updateMealById_map\<close>).
\<close>

definition edited :: "js \<Rightarrow> js \<Rightarrow> js \<Rightarrow> js" where
  "edited i val m = (if optProp m ''id'' = i then spread m val else m)"

text \<open>The number a string of decimal digits stands for, as \<^verbatim>\<open>parseInt\<close> accumulates it.\<close>

definition decimalValue :: "string \<Rightarrow> nat" where
  "decimalValue ds = foldl (\<lambda>a c. 10 * a + the (digitValue c)) 0 ds"

section \<open>Basic facts\<close>

lemma bindE_Inl [simp]: "bindE (Inl e) f = Inl e"
  by (simp add: bindE_def)

lemma bindE_Inr [simp]: "bindE (Inr x) f = f x"
  by (simp add: bindE_def)

lemma mapE_total: "\<forall>x \<in> set xs. f x = Inr (g x) \<Longrightarrow> mapE f xs = Inr (map g xs)"
  by (induction xs) simp_all

lemma filterE_total: "\<forall>x \<in> set xs. p x = Inr (q x) \<Longrightarrow> filterE p xs = Inr (filter q xs)"
  by (induction xs) simp_all

lemma getProp_optProp: "\<not> nullish m \<Longrightarrow> getProp m p = Inr (optProp m p)"
  by (cases m) simp_all

lemma isRecord_not_nullish: "isRecord m \<Longrightarrow> \<not> nullish m"
  by (cases m) simp_all

lemma in_set_enumerate_snd: "(i, x) \<in> set (enumerate n xs) \<Longrightarrow> x \<in> set xs"
  by (auto simp: in_set_enumerate_eq)

lemma addMealDefaults_total: "\<not> nullish m \<Longrightarrow> addMealDefaults amb m = Inr (defaulted amb m)"
  by (simp add: addMealDefaults_def getProp_optProp defaulted_def)

lemma buildInitialData_array:
  assumes "optProp t ''meals'' = JArr ms" and "list_all (\<lambda>m. \<not> nullish m) ms"
  shows "buildInitialData amb t =
           Inr (JObj [(''meals'', JArr (map (\<lambda>(i, m). defaulted (amb i) m) (enumerate 0 ms)))])"
proof -
  have "mapE (\<lambda>(i, x). addMealDefaults (amb i) x) (enumerate 0 ms) =
          Inr (map (\<lambda>(i, m). defaulted (amb i) m) (enumerate 0 ms))"
    using assms(2)
    by (intro mapE_total) (auto simp: list_all_iff addMealDefaults_total dest: in_set_enumerate_snd)
  then show ?thesis
    using assms(1) by (simp add: buildInitialData_def orElse_def)
qed

lemma buildInitialData_absent: "\<not> hasMeals t \<Longrightarrow> buildInitialData amb t = Inr emptyView"
  by (simp add: buildInitialData_def orElse_def hasMeals_def emptyView_def)

lemma list_all_isRecord_defaulted:
  "list_all isRecord (map (\<lambda>(i, m). defaulted (amb i) m) (enumerate n ms))"
  by (simp add: list_all_iff defaulted_def split: prod.splits)

lemma digits_nonempty: "digits r n \<noteq> []"
  by (subst digits.simps) simp

lemma uidFallback_nonempty: "uidFallback amb \<noteq> []"
  by (simp add: uidFallback_def toUpperCase_def numToString_def digits_nonempty)

lemma mealsOf_view [simp]: "mealsOf (JObj [(''meals'', JArr ms)]) = ms"
  by (simp add: mealsOf_def)

lemma nth_defaulted:
  "k < length ms \<Longrightarrow>
   map (\<lambda>(i, m). defaulted (amb i) m) (enumerate 0 ms) ! k = defaulted (amb k) (ms ! k)"
  by (simp add: nth_enumerate_eq)

lemma optProp_id_defaulted:
  "optProp (defaulted amb m) ''id'' = coalesce (optProp m ''id'') (JStr (uid amb))"
  by (simp add: defaulted_def)

lemma wfView_cases:
  "wfView v \<longleftrightarrow> (\<exists>ms. v = JObj [(''meals'', JArr ms)] \<and> list_all isRecord ms)"
  by (induction v rule: wfView.induct) auto

lemma hasMeals_iff:
  "hasMeals x \<longleftrightarrow> (\<exists>kvs v. x = JObj kvs \<and> map_of kvs ''meals'' = Some v \<and> truthy v)"
  by (cases x) (auto simp: hasMeals_def split: option.splits)

lemma deleteMealById_filter:
  assumes "list_all isRecord ms"
  shows "deleteMealById i (JObj [(''meals'', JArr ms)]) =
           Inr (JObj [(''meals'', JArr (filter (\<lambda>m. optProp m ''id'' \<noteq> i) ms))])"
proof -
  have "filterE (\<lambda>m. bindE (getProp m ''id'') (\<lambda>j. Inr (\<not> strictEq j i))) ms =
          Inr (filter (\<lambda>m. optProp m ''id'' \<noteq> i) ms)"
    using assms
    by (intro filterE_total) (simp add: list_all_iff getProp_optProp isRecord_not_nullish strictEq_def)
  then show ?thesis
    by (simp add: deleteMealById_def)
qed

lemma map_enumerate_snd: "map (\<lambda>(k, x). f x) (enumerate n xs) = map f xs"
  by (induction xs arbitrary: n) simp_all

lemma map_of_map_override:
  "map_of (map (\<lambda>(k, v). (k, case map_of b k of Some v' \<Rightarrow> v' | None \<Rightarrow> v)) a) k =
     (case map_of a k of None \<Rightarrow> None
      | Some v \<Rightarrow> Some (case map_of b k of Some v' \<Rightarrow> v' | None \<Rightarrow> v))"
  by (induction a) (auto split: option.splits)

lemma map_of_spreadProps_untouched:
  assumes "k \<notin> fst ` set b"
  shows "map_of (spreadProps a b) k = map_of a k"
proof -
  have none: "map_of b k = None"
    using assms by (simp add: map_of_eq_None_iff)
  have "map_of (filter (\<lambda>(k', v). k' \<notin> fst ` set a) b) k = None"
    using assms by (auto simp: map_of_eq_None_iff)
  then show ?thesis
    by (simp add: spreadProps_def map_add_def map_of_map_override none split: option.splits)
qed

lemma optProp_spread_untouched:
  assumes "isRecord m" and "k \<notin> fst ` set (ownProps val)"
  shows "optProp (spread m val) k = optProp m k"
  using assms by (cases m) (simp_all add: spread_def map_of_spreadProps_untouched)

lemma updateMealById_map:
  assumes "list_all isRecord ms"
  shows "updateMealById i val (JObj [(''meals'', JArr ms)]) =
           Inr (JObj [(''meals'', JArr (map (edited i val) ms))])"
proof -
  have "mapE (\<lambda>(k, m). bindE (getProp m ''id'') (\<lambda>j. Inr (if strictEq j i then spread m val else m)))
          (enumerate 0 ms) = Inr (map (\<lambda>(k, m). edited i val m) (enumerate 0 ms))"
    using assms
    by (intro mapE_total)
      (auto simp: list_all_iff getProp_optProp isRecord_not_nullish strictEq_def edited_def
        dest: in_set_enumerate_snd)
  moreover have "map (\<lambda>(k, m). edited i val m) (enumerate 0 ms) = map (edited i val) ms"
    by (rule map_enumerate_snd)
  ultimately show ?thesis
    by (simp add: updateMealById_def)
qed


lemma optProp_id_edited:
  assumes "isRecord m" and "''id'' \<notin> fst ` set (ownProps val)"
  shows "optProp (edited i val m) ''id'' = optProp m ''id''"
  using assms by (simp add: edited_def optProp_spread_untouched)

lemma edited_other: "optProp m ''id'' \<noteq> i \<Longrightarrow> edited i val m = m"
  by (simp add: edited_def)

lemma map_edited_no_match:
  "\<forall>m \<in> set ms. optProp m ''id'' \<noteq> i \<Longrightarrow> map (edited i val) ms = ms"
  by (induction ms) (simp_all add: edited_other)












text \<open>
  What is skipped on redelivery: the editable widget skips a tool output only when it is
  the very object the effect last ran on; the read-only widget skips every tool output
  whose meals are those it applied last, and applying a tool output twice is applying
  it once.
\<close>

lemma deliverToolOutput_same_object:
  "effectDeps s = Some t \<Longrightarrow> deliverToolOutput amb s t = Inr s"
  by (simp add: deliverToolOutput_def objectIs_def)

lemma syncReadOnly_idempotent:
  "syncReadOnly stringify t (syncReadOnly stringify t s) = syncReadOnly stringify t s"
  by (simp add: syncReadOnly_def Let_def)

lemma syncReadOnly_redelivery:
  "lastSyncedToolOutputRef s = optProp t ''meals'' \<Longrightarrow> syncReadOnly stringify t s = s"
  by (simp add: syncReadOnly_def Let_def)




text \<open>
  The two other initializers take their records from the same source as the editable
  widget does: the cached state when it has meals, else the tool output when it has
  meals, else nothing.
\<close>

lemma initialDataReadOnly_precedence:
  "initialDataReadOnly widgetState toolOutput =
     JObj [(''meals'',
            if hasMeals widgetState then optProp widgetState ''meals''
            else if hasMeals toolOutput then optProp toolOutput ''meals''
            else JArr [])]"
  by (simp add: initialDataReadOnly_def orElse_def hasMeals_def)

lemma buildInitialDataV0_precedence:
  "buildInitialDataV0 amb toolOutput widgetState =
     (if hasMeals widgetState then buildInitialDataV0 amb JUndefined widgetState
      else if hasMeals toolOutput then buildInitialDataV0 amb toolOutput JUndefined
      else Inr emptyView)"
  by (simp add: buildInitialDataV0_def orElse_def hasMeals_def emptyView_def)

text \<open>
  The date string of \<^verbatim>\<open>addMeal\<close> and the parser of \<^verbatim>\<open>formatDate\<close>: decimal digits are
  read back as the number they were written from, leading zeros or not.
\<close>

lemma upt_ten: "[0 ..< 10] = [0, 1, 2, 3, 4, 5, 6, 7, 8, 9 :: nat]"
  by code_simp

lemma digitValue_digitChar: "d < 10 \<Longrightarrow> digitValue (digitChar d) = Some d"
proof -
  assume "d < 10"
  then have "d = 0 \<or> d = 1 \<or> d = 2 \<or> d = 3 \<or> d = 4 \<or> d = 5 \<or> d = 6 \<or> d = 7 \<or> d = 8 \<or> d = 9"
    by arith
  then show ?thesis
    by (elim disjE) (simp_all add: digitValue_def digitChar_def upt_ten)
qed

lemma digitValue_zero: "digitValue (CHR ''0'') = Some 0"
  by (simp add: digitValue_def upt_ten)

lemma isDigit_digitChar: "d < 10 \<Longrightarrow> isDigit (digitChar d)"
  by (simp add: isDigit_def digitValue_digitChar)

lemma digits_decimal_isDigit: "\<forall>c \<in> set (digits 10 n). isDigit c"
proof (induction n rule: less_induct)
  case (less n)
  show ?case
  proof (cases "n < 10")
    case True
    then show ?thesis
      by (subst digits.simps) (simp add: isDigit_digitChar)
  next
    case False
    then have "n div 10 < n"
      by simp
    then have "\<forall>c \<in> set (digits 10 (n div 10)). isDigit c"
      by (rule less.IH)
    then show ?thesis
      using False by (subst digits.simps) (simp add: isDigit_digitChar)
  qed
qed

lemma decimalValue_digits: "decimalValue (digits 10 n) = n"
proof (induction n rule: less_induct)
  case (less n)
  show ?case
  proof (cases "n < 10")
    case True
    then show ?thesis
      by (subst digits.simps) (simp add: decimalValue_def digitValue_digitChar)
  next
    case False
    then have "n div 10 < n"
      by simp
    then have "decimalValue (digits 10 (n div 10)) = n div 10"
      by (rule less.IH)
    then show ?thesis
      using False
      by (subst digits.simps) (simp add: decimalValue_def digitValue_digitChar)
  qed
qed

lemma isDigit_plain:
  "isDigit c \<Longrightarrow> \<not> isWhiteSpace c \<and> c \<noteq> CHR ''-'' \<and> c \<noteq> CHR ''+''"
  by (auto simp: isDigit_def digitValue_def isWhiteSpace_def upt_ten split: if_splits)

lemma parseInt_decimal:
  assumes "ds \<noteq> []" and "\<forall>c \<in> set ds. isDigit c"
  shows "parseInt ds = Some (int (decimalValue ds))"
proof -
  obtain c r where ds: "ds = c # r"
    using assms(1) by (cases ds) auto
  have c: "\<not> isWhiteSpace c" "c \<noteq> CHR ''-''" "c \<noteq> CHR ''+''"
    using assms(2) isDigit_plain [of c] by (simp_all add: ds)
  have tw: "takeWhile isDigit ds = ds"
    using assms(2) by (simp add: takeWhile_eq_all_conv)
  have dw: "dropWhile isWhiteSpace ds = ds"
    using c(1) by (simp add: ds)
  have neg: "(case ds of c # r \<Rightarrow> c = CHR ''-'' | [] \<Rightarrow> False) = False"
    using c(2) by (simp add: ds)
  have u: "(case ds of c # r \<Rightarrow> if c = CHR ''-'' \<or> c = CHR ''+'' then r else ds | [] \<Rightarrow> []) = ds"
    using c(2,3) by (simp add: ds)
  show ?thesis
    unfolding parseInt_def Let_def dw neg u tw decimalValue_def using assms(1) by simp
qed

lemma decimalValue_zeros: "decimalValue (replicate k (CHR ''0'') @ ds) = decimalValue ds"
proof (induction k)
  case 0
  then show ?case by simp
next
  case (Suc k)
  then show ?case
    by (simp add: decimalValue_def digitValue_zero)
qed

lemma padStart2_isDigit: "\<forall>c \<in> set ds. isDigit c \<Longrightarrow> \<forall>c \<in> set (padStart2 ds). isDigit c"
  by (auto simp: padStart2_def isDigit_def digitValue_def)

lemma decimalValue_padStart2: "decimalValue (padStart2 ds) = decimalValue ds"
  by (simp add: padStart2_def decimalValue_zeros)

lemma padStart2_nonempty: "ds \<noteq> [] \<Longrightarrow> padStart2 ds \<noteq> []"
  by (simp add: padStart2_def)

lemma length_digits_small: "n < 10 \<Longrightarrow> length (digits 10 n) = 1"
  by (subst digits.simps) simp

lemma length_padStart2_digits: "n < 100 \<Longrightarrow> length (padStart2 (digits 10 n)) = 2"
proof (cases "n < 10")
  case True
  then show ?thesis
    by (simp add: padStart2_def length_digits_small)
next
  case False
  assume "n < 100"
  with False have "n div 10 < 10"
    by simp
  then have "length (digits 10 (n div 10)) = 1"
    by (rule length_digits_small)
  then have "length (digits 10 n) = 2"
    using False by (subst digits.simps) simp
  then show ?thesis
    by (simp add: padStart2_def)
qed

lemma splitOn_none: "c \<notin> set xs \<Longrightarrow> splitOn c xs = [xs]"
  by (induction xs) auto

lemma splitOn_first: "c \<notin> set xs \<Longrightarrow> splitOn c (xs @ c # ys) = xs # splitOn c ys"
  by (induction xs) (auto split: list.splits)

lemma no_dash: "\<forall>c \<in> set ds. isDigit c \<Longrightarrow> CHR ''-'' \<notin> set ds"
  using isDigit_plain by blast

lemma dateStrOf_parts:
  assumes "0 \<le> getFullYear t"
  shows "splitOn (CHR ''-'') (dateStrOf t) =
           [numToString 10 (getFullYear t),
            padStart2 (numToString 10 (int (getMonth t) + 1)),
            padStart2 (numToString 10 (int (getDate t)))]"
proof -
  let ?y = "digits 10 (nat (getFullYear t))"
  let ?m = "padStart2 (digits 10 (Suc (getMonth t)))"
  let ?d = "padStart2 (digits 10 (getDate t))"
  have y: "CHR ''-'' \<notin> set ?y"
    by (rule no_dash) (rule digits_decimal_isDigit)
  have m: "CHR ''-'' \<notin> set ?m"
    by (rule no_dash) (rule padStart2_isDigit, rule digits_decimal_isDigit)
  have d: "CHR ''-'' \<notin> set ?d"
    by (rule no_dash) (rule padStart2_isDigit, rule digits_decimal_isDigit)
  have "dateStrOf t = ?y @ CHR ''-'' # ?m @ CHR ''-'' # ?d"
    using assms by (simp add: dateStrOf_def numToString_def nat_add_distrib)
  then show ?thesis
    using assms by (simp add: splitOn_first y m splitOn_none d numToString_def nat_add_distrib)
qed

lemma parseInt_numToString: "0 \<le> i \<Longrightarrow> parseInt (numToString 10 i) = Some i"
  by (simp add: numToString_def parseInt_decimal digits_nonempty digits_decimal_isDigit
      decimalValue_digits)

lemma parseInt_padStart2:
  assumes "0 \<le> i"
  shows "parseInt (padStart2 (numToString 10 i)) = Some i"
proof -
  let ?ds = "padStart2 (digits 10 (nat i))"
  have "?ds \<noteq> []"
    by (rule padStart2_nonempty) (rule digits_nonempty)
  moreover have "\<forall>c \<in> set ?ds. isDigit c"
    by (rule padStart2_isDigit) (rule digits_decimal_isDigit)
  ultimately have "parseInt ?ds = Some (int (decimalValue ?ds))"
    by (rule parseInt_decimal)
  then show ?thesis
    using assms by (simp add: numToString_def decimalValue_padStart2 decimalValue_digits)
qed

lemma length_padStart2_numToString:
  "0 \<le> i \<Longrightarrow> i < 100 \<Longrightarrow> length (padStart2 (numToString 10 i)) = 2"
  by (simp add: numToString_def length_padStart2_digits)

section \<open>Malformed and missing payloads\<close>

text \<open>
  Claim C5, as the spec has it: building the view model never raises, whatever the
  payload, and malformed data counts as absent. It fails: a \<^verbatim>\<open>meals\<close> field that is
  truthy and not an array has no \<^verbatim>\<open>map\<close> method, and a \<^verbatim>\<open>null\<close> element has no \<^verbatim>\<open>id\<close>
  to read; both raise a TypeError.
\<close>

theorem buildInitialData_malformed_raises:
  "buildInitialData (\<lambda>i. \<lparr>crypto = NoCrypto, dateNow = 5, mathRandom36 = ''0.abc''\<rparr>)
     (JObj [(''meals'', JStr ''soup'')]) = Inl TypeError \<and>
   buildInitialData (\<lambda>i. \<lparr>crypto = NoCrypto, dateNow = 5, mathRandom36 = ''0.abc''\<rparr>)
     (JObj [(''meals'', JArr [JNull])]) = Inl TypeError"
  by (simp add: buildInitialData_def orElse_def addMealDefaults_def)

text \<open>
  Claim C5, amended: for every payload whose \<^verbatim>\<open>meals\<close> field is missing, \<^verbatim>\<open>null\<close> or
  otherwise falsy (the payload itself may be absent), and for every payload whose
  \<^verbatim>\<open>meals\<close> field is an array without \<^verbatim>\<open>null\<close> or \<^verbatim>\<open>undefined\<close> elements, building the
  view model returns a well-formed view model and raises nothing: one record for each
  element of the array, and the empty collection in the first case.
\<close>

theorem buildInitialData_no_error:
  assumes "\<not> hasMeals t \<or>
           (\<exists>ms. optProp t ''meals'' = JArr ms \<and> list_all (\<lambda>m. \<not> nullish m) ms)"
  shows "\<exists>v. buildInitialData amb t = Inr v \<and> wfView v \<and>
           (\<not> hasMeals t \<longrightarrow> v = emptyView) \<and>
           (\<forall>ms. optProp t ''meals'' = JArr ms \<longrightarrow> length (mealsOf v) = length ms)"
  using assms
proof
  assume "\<not> hasMeals t"
  then show ?thesis
    by (auto simp: buildInitialData_absent emptyView_def hasMeals_def)
next
  assume "\<exists>ms. optProp t ''meals'' = JArr ms \<and> list_all (\<lambda>m. \<not> nullish m) ms"
  then obtain ms where ms: "optProp t ''meals'' = JArr ms" "list_all (\<lambda>m. \<not> nullish m) ms"
    by blast
  then have "hasMeals t"
    by (simp add: hasMeals_def)
  then show ?thesis
    using buildInitialData_array [OF ms, of amb] ms(1)
    by (simp add: list_all_isRecord_defaulted)
qed

theorem buildInitialData_no_error_witness:
  "\<not> hasMeals (JObj [(''meals'', JNull)]) \<and>
   buildInitialData (\<lambda>i. \<lparr>crypto = NoCrypto, dateNow = 5, mathRandom36 = ''0.abc''\<rparr>)
     (JObj [(''meals'', JNull)]) = Inr emptyView"
  using buildInitialData_no_error [of "JObj [(''meals'', JNull)]"
      "\<lambda>i. \<lparr>crypto = NoCrypto, dateNow = 5, mathRandom36 = ''0.abc''\<rparr>"]
  by (auto simp add: hasMeals_def)


section \<open>Identifiers of the records of a payload\<close>

text \<open>
  Claim C6: for every record of an incoming payload (an array of records, none of them
  \<^verbatim>\<open>null\<close> or \<^verbatim>\<open>undefined\<close>), the built view model keeps the record's id when it has
  one and otherwise gives it the generated identifier. The generator returns
  \<^verbatim>\<open>crypto.randomUUID()\<close> when \<^verbatim>\<open>crypto\<close> and its \<^verbatim>\<open>randomUUID\<close> exist, and otherwise the
  upper-cased base-36 timestamp followed by eight characters of the base-36 random
  number; it is never empty (the platform's UUID being non-empty).
\<close>

theorem uid_assignment:
  assumes "optProp t ''meals'' = JArr ms" and "list_all (\<lambda>m. \<not> nullish m) ms"
    and "k < length ms"
    and "\<forall>u. crypto (amb k) = Crypto u \<longrightarrow> u \<noteq> []"
  shows "\<exists>v. buildInitialData amb t = Inr v \<and> length (mealsOf v) = length ms \<and>
           optProp (mealsOf v ! k) ''id'' =
             (if nullish (optProp (ms ! k) ''id'') then JStr (uid (amb k))
              else optProp (ms ! k) ''id'') \<and>
           uid (amb k) =
             (case crypto (amb k) of
                Crypto u \<Rightarrow> u
              | _ \<Rightarrow> toUpperCase (numToString 36 (dateNow (amb k)) @
                                   slice 2 10 (mathRandom36 (amb k)))) \<and>
           uid (amb k) \<noteq> []"
proof -
  let ?ms' = "map (\<lambda>(i, m). defaulted (amb i) m) (enumerate 0 ms)"
  have build: "buildInitialData amb t = Inr (JObj [(''meals'', JArr ?ms')])"
    by (rule buildInitialData_array [OF assms(1,2)])
  have len: "length (mealsOf (JObj [(''meals'', JArr ?ms')])) = length ms"
    by (simp only: mealsOf_view length_map length_enumerate)
  have kth: "mealsOf (JObj [(''meals'', JArr ?ms')]) ! k = defaulted (amb k) (ms ! k)"
    by (simp only: mealsOf_view nth_defaulted [OF assms(3)])
  have ident: "optProp (defaulted (amb k) (ms ! k)) ''id'' =
             (if nullish (optProp (ms ! k) ''id'') then JStr (uid (amb k))
              else optProp (ms ! k) ''id'')"
    by (simp add: optProp_id_defaulted coalesce_def)
  have nonempty: "uid (amb k) \<noteq> []"
    using assms(4) uidFallback_nonempty [of "amb k"]
    by (auto simp: uid_def split: crypto.splits)
  have choice: "uid (amb k) =
             (case crypto (amb k) of
                Crypto u \<Rightarrow> u
              | _ \<Rightarrow> toUpperCase (numToString 36 (dateNow (amb k)) @
                                   slice 2 10 (mathRandom36 (amb k))))"
    by (simp add: uid_def uidFallback_def split: crypto.splits)
  show ?thesis
    using build len kth ident nonempty choice by metis
qed

lemma uid_example:
  "uid \<lparr>crypto = NoCrypto, dateNow = 1700000000000, mathRandom36 = ''0.4fzyo82mvyr''\<rparr> =
     ''LOYW3V284FZYO82M''"
  by (simp add: uid_def uidFallback_def numToString_def digits.simps digitChar_def
      toUpperCase_def toUpperChar_def slice_def)

theorem uid_assignment_witness:
  "optProp (JObj [(''meals'', JArr [JObj [(''id'', JStr ''m1''), (''meal'', JStr ''Tacos'')],
                                    JObj [(''meal'', JStr ''Pizza'')]])]) ''meals'' =
     JArr [JObj [(''id'', JStr ''m1''), (''meal'', JStr ''Tacos'')], JObj [(''meal'', JStr ''Pizza'')]] \<and>
   buildInitialData
     (\<lambda>i. \<lparr>crypto = NoCrypto, dateNow = 1700000000000, mathRandom36 = ''0.4fzyo82mvyr''\<rparr>)
     (JObj [(''meals'', JArr [JObj [(''id'', JStr ''m1''), (''meal'', JStr ''Tacos'')],
                              JObj [(''meal'', JStr ''Pizza'')]])]) =
   Inr (JObj [(''meals'', JArr [
     JObj [(''id'', JStr ''m1''), (''date'', JNull), (''meal'', JStr ''Tacos''),
           (''notes'', JStr [])],
     JObj [(''id'', JStr ''LOYW3V284FZYO82M''), (''date'', JNull), (''meal'', JStr ''Pizza''),
           (''notes'', JStr [])]])]) \<and>
   uid \<lparr>crypto = NoCrypto, dateNow = 1700000000000, mathRandom36 = ''0.4fzyo82mvyr''\<rparr> \<noteq> []"
proof -
  let ?amb = "\<lambda>i::nat. \<lparr>crypto = NoCrypto, dateNow = 1700000000000, mathRandom36 = ''0.4fzyo82mvyr''\<rparr>"
  let ?ms = "[JObj [(''id'', JStr ''m1''), (''meal'', JStr ''Tacos'')], JObj [(''meal'', JStr ''Pizza'')]]"
  have h1: "optProp (JObj [(''meals'', JArr ?ms)]) ''meals'' = JArr ?ms"
    by simp
  have h2: "list_all (\<lambda>m. \<not> nullish m) ?ms"
    by simp
  have h3: "(1::nat) < length ?ms"
    by simp
  have h4: "\<forall>u. crypto (?amb 1) = Crypto u \<longrightarrow> u \<noteq> []"
    by simp
  have nonempty: "uid (?amb 1) \<noteq> []"
    using uid_assignment [of "JObj [(''meals'', JArr ?ms)]" ?ms 1 ?amb, OF h1 h2 h3 h4]
    by (elim exE conjE)
  have build: "buildInitialData ?amb (JObj [(''meals'', JArr ?ms)]) =
   Inr (JObj [(''meals'', JArr [
     JObj [(''id'', JStr ''m1''), (''date'', JNull), (''meal'', JStr ''Tacos''),
           (''notes'', JStr [])],
     JObj [(''id'', JStr (uid \<lparr>crypto = NoCrypto, dateNow = 1700000000000, mathRandom36 = ''0.4fzyo82mvyr''\<rparr>)), (''date'', JNull), (''meal'', JStr ''Pizza''),
           (''notes'', JStr [])]])])"
    by (simp add: buildInitialData_def orElse_def addMealDefaults_def coalesce_def
        typeofStringOrNull_def)
  show ?thesis
    using build nonempty unfolding uid_example by (intro conjI h1)
qed

section \<open>Initial load\<close>

text \<open>
  The initializer alone follows the order its comment states, \<^verbatim>\<open>widgetState (cached) >
  toolOutput (fresh) > empty\<close>, where a source is present when it is an object with a
  truthy \<^verbatim>\<open>meals\<close> property.
\<close>

lemma initialData_precedence:
  "(hasMeals widgetState \<longrightarrow> initialData amb widgetState toolOutput = Inr widgetState) \<and>
   (\<not> hasMeals widgetState \<and> hasMeals toolOutput \<longrightarrow>
      initialData amb widgetState toolOutput = buildInitialData amb toolOutput) \<and>
   (\<not> hasMeals widgetState \<and> \<not> hasMeals toolOutput \<longrightarrow>
      initialData amb widgetState toolOutput = Inr emptyView \<and> mealsOf emptyView = []) \<and>
   (hasMeals widgetState \<longleftrightarrow>
      (\<exists>kvs v. widgetState = JObj kvs \<and> map_of kvs ''meals'' = Some v \<and> truthy v))"
proof -
  have cached: "hasMeals widgetState \<longrightarrow> initialData amb widgetState toolOutput = Inr widgetState"
    by (simp add: initialData_def)
  have fresh: "\<not> hasMeals widgetState \<and> hasMeals toolOutput \<longrightarrow>
      initialData amb widgetState toolOutput = buildInitialData amb toolOutput"
    by (simp add: initialData_def)
  have empty: "\<not> hasMeals widgetState \<and> \<not> hasMeals toolOutput \<longrightarrow>
      initialData amb widgetState toolOutput = Inr emptyView \<and> mealsOf emptyView = []"
    by (simp add: initialData_def emptyView_def)
  show ?thesis
    by (intro conjI cached fresh empty hasMeals_iff)
qed

text \<open>
  Claim C3: on initial load the view model is the cached state when it is present, else
  the view model built from the tool output, else the empty collection. The widget does
  not load this way. It is mounted with cached state that holds the user's saved edits
  and with the tool output of the original call: the initializer takes the cached state,
  then the effect of the first render applies the tool output, and the loaded view
  model is the one built from the tool output.
\<close>

theorem mount_overrides_cached_state:
  "let cached = JObj [(''meals'', JArr [JObj [(''id'', JStr ''m1''), (''meal'', JStr ''Tacos al pastor''),
                                              (''notes'', JStr ''extra lime''),
                                              (''date'', JStr ''2025-12-01'')]])];
       toolOutput = JObj [(''meals'', JArr [JObj [(''id'', JStr ''m1''),
                                                  (''date'', JStr ''2025-12-01''),
                                                  (''meal'', JStr ''Tacos'')]])];
       amb = (\<lambda>i. \<lparr>crypto = Crypto ''u1'', dateNow = 5, mathRandom36 = ''0.abc''\<rparr>)
   in initialData amb cached toolOutput = Inr cached \<and>
      bindE (mount amb amb cached \<lparr>ident = 1, content = toolOutput\<rparr>) (\<lambda>s. Inr (mealsOf (data s))) =
        Inr [JObj [(''id'', JStr ''m1''), (''date'', JStr ''2025-12-01''),
                   (''meal'', JStr ''Tacos''), (''notes'', JStr [])]]"
  by (simp add: Let_def mount_def initialData_def hasMeals_def deliverToolOutput_def runEffect_def
      syncToolOutput_def buildInitialData_def orElse_def addMealDefaults_def coalesce_def
      typeofStringOrNull_def)

section \<open>Arrival of a tool output\<close>

text \<open>
  Claim C2: whatever the current view model holds (unsaved edits included), a tool
  output that React sees as changed (it is not the object the effect last ran on) and
  whose \<^verbatim>\<open>meals\<close> field is an array of records replaces the whole view model by the one
  built from it.
\<close>

theorem newToolOutput_replaces_view:
  assumes "case effectDeps s of None \<Rightarrow> True | Some t0 \<Rightarrow> \<not> objectIs t0 t"
    and "optProp (content t) ''meals'' = JArr ms" and "list_all (\<lambda>m. \<not> nullish m) ms"
  shows "\<exists>v. buildInitialData amb (content t) = Inr v \<and> wfView v \<and>
           deliverToolOutput amb s t = Inr \<lparr>data = v, effectDeps = Some t\<rparr>"
proof -
  have has: "hasMeals (content t)"
    using assms(2) by (simp add: hasMeals_def)
  have run: "deliverToolOutput amb s t = runEffect amb s t"
    using assms(1) by (simp add: deliverToolOutput_def split: option.splits)
  show ?thesis
    by (simp add: run runEffect_def syncToolOutput_def has buildInitialData_array [OF assms(2,3)]
        list_all_isRecord_defaulted)
qed

theorem newToolOutput_replaces_view_witness:
  "\<not> objectIs \<lparr>ident = 1, content = JObj [(''meals'', JArr [])]\<rparr>
       \<lparr>ident = 2, content = JObj [(''meals'', JArr [JObj [(''id'', JStr ''m9''),
                                                          (''meal'', JStr ''Ramen'')]])]\<rparr> \<and>
   deliverToolOutput (\<lambda>i. \<lparr>crypto = Crypto ''u1'', dateNow = 5, mathRandom36 = ''0.abc''\<rparr>)
     \<lparr>data = JObj [(''meals'', JArr [JObj [(''id'', JStr ''u0''), (''meal'', JStr ''Tac''),
                                         (''notes'', JStr []), (''date'', JStr ''2025-12-01'')]])],
      effectDeps = Some \<lparr>ident = 1, content = JObj [(''meals'', JArr [])]\<rparr>\<rparr>
     \<lparr>ident = 2, content = JObj [(''meals'', JArr [JObj [(''id'', JStr ''m9''),
                                                        (''meal'', JStr ''Ramen'')]])]\<rparr> =
   Inr \<lparr>data = JObj [(''meals'', JArr [JObj [(''id'', JStr ''m9''), (''date'', JNull),
                                             (''meal'', JStr ''Ramen''), (''notes'', JStr [])]])],
        effectDeps = Some \<lparr>ident = 2, content = JObj [(''meals'', JArr [JObj [(''id'', JStr ''m9''),
                                                        (''meal'', JStr ''Ramen'')]])]\<rparr>\<rparr>"
proof -
  let ?amb = "\<lambda>i::nat. \<lparr>crypto = Crypto ''u1'', dateNow = 5, mathRandom36 = ''0.abc''\<rparr>"
  let ?ms = "[JObj [(''id'', JStr ''m9''), (''meal'', JStr ''Ramen'')]]"
  let ?t = "\<lparr>ident = 2, content = JObj [(''meals'', JArr ?ms)]\<rparr>"
  let ?prev = "\<lparr>ident = 1, content = JObj [(''meals'', JArr [])]\<rparr>"
  let ?s = "\<lparr>data = JObj [(''meals'', JArr [JObj [(''id'', JStr ''u0''), (''meal'', JStr ''Tac''),
                                         (''notes'', JStr []), (''date'', JStr ''2025-12-01'')]])],
             effectDeps = Some ?prev\<rparr>"
  have differs: "\<not> objectIs ?prev ?t"
    by (simp add: objectIs_def)
  have h1: "case effectDeps ?s of None \<Rightarrow> True | Some t0 \<Rightarrow> \<not> objectIs t0 ?t"
    by (simp add: objectIs_def)
  have h2: "optProp (content ?t) ''meals'' = JArr ?ms"
    by simp
  have h3: "list_all (\<lambda>m. \<not> nullish m) ?ms"
    by simp
  have built: "buildInitialData ?amb (content ?t) =
      Inr (JObj [(''meals'', JArr [JObj [(''id'', JStr ''m9''), (''date'', JNull),
                                         (''meal'', JStr ''Ramen''), (''notes'', JStr [])]])])"
    by (simp add: buildInitialData_def orElse_def addMealDefaults_def coalesce_def
        typeofStringOrNull_def)
  obtain v where "buildInitialData ?amb (content ?t) = Inr v"
    and "deliverToolOutput ?amb ?s ?t = Inr \<lparr>data = v, effectDeps = Some ?t\<rparr>"
    using newToolOutput_replaces_view [where s = ?s and t = ?t and ms = ?ms and amb = ?amb, OF h1 h2 h3] by blast
  with built have "deliverToolOutput ?amb ?s ?t =
      Inr \<lparr>data = JObj [(''meals'', JArr [JObj [(''id'', JStr ''m9''), (''date'', JNull),
                                                (''meal'', JStr ''Ramen''), (''notes'', JStr [])]])],
           effectDeps = Some ?t\<rparr>"
    by simp
  with differs show ?thesis
    by (intro conjI)
qed

text \<open>
  Claim C1: delivering a payload that the reconciler has already applied leaves the view
  model, in-progress edits included, as it is. On the editable widget it does not hold.
  The widget is mounted with a tool output, the user retypes the meal name, and the host
  delivers the same tool output again as a new object (the result of another call of
  the tool, say). The effect's dependency is compared by identity, its body compares
  nothing, and the edit is overwritten: the third view model is the first again.
\<close>

theorem redelivered_payload_overwrites_edit:
  "let payload = JObj [(''meals'', JArr [JObj [(''id'', JStr ''m1''), (''date'', JStr ''2025-12-01''),
                                               (''meal'', JStr ''Tacos''), (''notes'', JStr [])]])];
       amb = (\<lambda>i. \<lparr>crypto = Crypto ''u1'', dateNow = 5, mathRandom36 = ''0.abc''\<rparr>);
       first = \<lparr>ident = 1, content = payload\<rparr>;
       again = \<lparr>ident = 2, content = payload\<rparr>;
       typing = updateMealById (JStr ''m1'') (JObj [(''meal'', JStr ''Tacos al pastor'')])
   in bindE (mount amb amb JUndefined first) (\<lambda>s1.
      bindE (setData typing s1) (\<lambda>s2.
      bindE (deliverToolOutput amb s2 again) (\<lambda>s3.
        Inr (mealsOf (data s1), mealsOf (data s2), mealsOf (data s3))))) =
      Inr ([JObj [(''id'', JStr ''m1''), (''date'', JStr ''2025-12-01''),
                  (''meal'', JStr ''Tacos''), (''notes'', JStr [])]],
           [JObj [(''id'', JStr ''m1''), (''date'', JStr ''2025-12-01''),
                  (''meal'', JStr ''Tacos al pastor''), (''notes'', JStr [])]],
           [JObj [(''id'', JStr ''m1''), (''date'', JStr ''2025-12-01''),
                  (''meal'', JStr ''Tacos''), (''notes'', JStr [])]])"
  by (simp add: Let_def mount_def initialData_def hasMeals_def deliverToolOutput_def runEffect_def
      syncToolOutput_def buildInitialData_def orElse_def addMealDefaults_def coalesce_def
      typeofStringOrNull_def setData_def updateMealById_def strictEq_def spread_def
      spreadProps_def objectIs_def)

section \<open>The user's edits\<close>

text \<open>
  Claim C8: on every well-formed view model, adding a blank record returns the view
  model whose first record is new, with the generated id, an empty meal name, empty
  notes and today's date, followed by the previous records, unchanged and in their
  order. The date is today's: for a year that is not negative, a month index below 12
  and a day of at most 31, it splits at its dashes into three parts that \<^verbatim>\<open>parseInt\<close>
  reads back as the year, the month (index plus one) and the day, the last two of two
  characters each.
\<close>

theorem addMeal_prepends_blank:
  assumes "wfView v"
  shows "addMeal amb t v =
           Inr (JObj [(''meals'',
                  JArr (JObj [(''id'', JStr (uid amb)), (''meal'', JStr []), (''notes'', JStr []),
                              (''date'', JStr (dateStrOf t))] # mealsOf v))]) \<and>
         (0 \<le> getFullYear t \<and> getMonth t < 12 \<and> getDate t \<le> 31 \<longrightarrow>
            (\<exists>y m d. splitOn (CHR ''-'') (dateStrOf t) = [y, m, d] \<and>
               parseInt y = Some (getFullYear t) \<and>
               parseInt m = Some (int (getMonth t) + 1) \<and>
               parseInt d = Some (int (getDate t)) \<and>
               length m = 2 \<and> length d = 2))"
proof -
  have added: "addMeal amb t v =
           Inr (JObj [(''meals'',
                  JArr (JObj [(''id'', JStr (uid amb)), (''meal'', JStr []), (''notes'', JStr []),
                              (''date'', JStr (dateStrOf t))] # mealsOf v))])"
    using assms by (auto simp: wfView_cases addMeal_def blankMeal_def)
  have date: "\<exists>y m d. splitOn (CHR ''-'') (dateStrOf t) = [y, m, d] \<and>
               parseInt y = Some (getFullYear t) \<and>
               parseInt m = Some (int (getMonth t) + 1) \<and>
               parseInt d = Some (int (getDate t)) \<and>
               length m = 2 \<and> length d = 2"
    if "0 \<le> getFullYear t" and "getMonth t < 12" and "getDate t \<le> 31"
  proof (intro exI conjI)
    show "splitOn (CHR ''-'') (dateStrOf t) =
           [numToString 10 (getFullYear t),
            padStart2 (numToString 10 (int (getMonth t) + 1)),
            padStart2 (numToString 10 (int (getDate t)))]"
      using that(1) by (rule dateStrOf_parts)
    show "parseInt (numToString 10 (getFullYear t)) = Some (getFullYear t)"
      using that(1) by (rule parseInt_numToString)
    show "parseInt (padStart2 (numToString 10 (int (getMonth t) + 1))) = Some (int (getMonth t) + 1)"
      by (rule parseInt_padStart2) simp
    show "parseInt (padStart2 (numToString 10 (int (getDate t)))) = Some (int (getDate t))"
      by (rule parseInt_padStart2) simp
    show "length (padStart2 (numToString 10 (int (getMonth t) + 1))) = 2"
      using that(2) by (intro length_padStart2_numToString) simp_all
    show "length (padStart2 (numToString 10 (int (getDate t)))) = 2"
      using that(3) by (intro length_padStart2_numToString) simp_all
  qed
  show ?thesis
    using added date by blast
qed

lemma dateStrOf_example: "dateStrOf \<lparr>getFullYear = 2025, getMonth = 0, getDate = 7\<rparr> = ''2025-01-07''"
  by (simp add: dateStrOf_def numToString_def digits.simps digitChar_def padStart2_def)

theorem addMeal_prepends_blank_witness:
  "wfView (JObj [(''meals'', JArr [JObj [(''id'', JStr ''m1''), (''meal'', JStr ''Tacos'')]])]) \<and>
   addMeal \<lparr>crypto = Crypto ''u1'', dateNow = 5, mathRandom36 = ''0.abc''\<rparr>
     \<lparr>getFullYear = 2025, getMonth = 0, getDate = 7\<rparr>
     (JObj [(''meals'', JArr [JObj [(''id'', JStr ''m1''), (''meal'', JStr ''Tacos'')]])]) =
   Inr (JObj [(''meals'', JArr [
     JObj [(''id'', JStr ''u1''), (''meal'', JStr []), (''notes'', JStr []),
           (''date'', JStr ''2025-01-07'')],
     JObj [(''id'', JStr ''m1''), (''meal'', JStr ''Tacos'')]])]) \<and>
   (0::int) \<le> getFullYear \<lparr>getFullYear = 2025, getMonth = 0, getDate = 7\<rparr> \<and>
   getMonth \<lparr>getFullYear = 2025, getMonth = 0, getDate = 7\<rparr> < 12 \<and>
   getDate \<lparr>getFullYear = 2025, getMonth = 0, getDate = 7\<rparr> \<le> 31 \<and>
   (\<exists>y m d. splitOn (CHR ''-'') ''2025-01-07'' = [y, m, d] \<and>
      parseInt y = Some 2025 \<and> parseInt m = Some 1 \<and> parseInt d = Some 7 \<and>
      length m = 2 \<and> length d = 2)"
proof -
  let ?v = "JObj [(''meals'', JArr [JObj [(''id'', JStr ''m1''), (''meal'', JStr ''Tacos'')]])]"
  let ?today = "\<lparr>getFullYear = 2025, getMonth = 0, getDate = 7\<rparr>"
  let ?amb = "\<lparr>crypto = Crypto ''u1'', dateNow = 5, mathRandom36 = ''0.abc''\<rparr>"
  have wf: "wfView ?v"
    by simp
  have range: "0 \<le> getFullYear ?today \<and> getMonth ?today < 12 \<and> getDate ?today \<le> 31"
    by simp
  note inst = addMeal_prepends_blank [where v = ?v and amb = ?amb and t = ?today, OF wf]
  have added: "addMeal ?amb ?today ?v =
     Inr (JObj [(''meals'', JArr [
       JObj [(''id'', JStr ''u1''), (''meal'', JStr []), (''notes'', JStr []),
             (''date'', JStr ''2025-01-07'')],
       JObj [(''id'', JStr ''m1''), (''meal'', JStr ''Tacos'')]])])"
    using inst by (simp add: uid_def dateStrOf_example)
  have parts: "\<exists>y m d. splitOn (CHR ''-'') ''2025-01-07'' = [y, m, d] \<and>
      parseInt y = Some 2025 \<and> parseInt m = Some 1 \<and> parseInt d = Some 7 \<and>
      length m = 2 \<and> length d = 2"
    using inst range unfolding dateStrOf_example by simp
  show ?thesis
    using wf added range parts by (intro conjI) simp_all
qed

text \<open>
  Claim C9: on every well-formed view model and for every (primitive) id,
  \<^verbatim>\<open>deleteMealById\<close> does not fail and keeps exactly the records whose id differs from
  the given one, in their order; when no record has the id the view model is unchanged.
\<close>

theorem deleteMealById_removes_exactly:
  assumes "wfView v" and "\<not> isObject i"
  shows "deleteMealById i v =
           Inr (JObj [(''meals'', JArr (filter (\<lambda>m. optProp m ''id'' \<noteq> i) (mealsOf v)))]) \<and>
         ((\<forall>m \<in> set (mealsOf v). optProp m ''id'' \<noteq> i) \<longrightarrow> deleteMealById i v = Inr v)"
  using assms(1) by (auto simp: wfView_cases deleteMealById_filter)

theorem deleteMealById_removes_exactly_witness:
  "wfView (JObj [(''meals'', JArr [JObj [(''id'', JStr ''m1''), (''meal'', JStr ''Tacos'')],
                                   JObj [(''id'', JStr ''m2''), (''meal'', JStr ''Pizza'')],
                                   JObj [(''id'', JStr ''m3''), (''meal'', JStr ''Ramen'')]])]) \<and>
   \<not> isObject (JStr ''m2'') \<and>
   deleteMealById (JStr ''m2'')
     (JObj [(''meals'', JArr [JObj [(''id'', JStr ''m1''), (''meal'', JStr ''Tacos'')],
                              JObj [(''id'', JStr ''m2''), (''meal'', JStr ''Pizza'')],
                              JObj [(''id'', JStr ''m3''), (''meal'', JStr ''Ramen'')]])]) =
   Inr (JObj [(''meals'', JArr [JObj [(''id'', JStr ''m1''), (''meal'', JStr ''Tacos'')],
                                JObj [(''id'', JStr ''m3''), (''meal'', JStr ''Ramen'')]])]) \<and>
   deleteMealById (JStr ''zz'')
     (JObj [(''meals'', JArr [JObj [(''id'', JStr ''m1''), (''meal'', JStr ''Tacos'')],
                              JObj [(''id'', JStr ''m2''), (''meal'', JStr ''Pizza'')],
                              JObj [(''id'', JStr ''m3''), (''meal'', JStr ''Ramen'')]])]) =
   Inr (JObj [(''meals'', JArr [JObj [(''id'', JStr ''m1''), (''meal'', JStr ''Tacos'')],
                                JObj [(''id'', JStr ''m2''), (''meal'', JStr ''Pizza'')],
                                JObj [(''id'', JStr ''m3''), (''meal'', JStr ''Ramen'')]])])"
proof -
  let ?v = "JObj [(''meals'', JArr [JObj [(''id'', JStr ''m1''), (''meal'', JStr ''Tacos'')],
                                   JObj [(''id'', JStr ''m2''), (''meal'', JStr ''Pizza'')],
                                   JObj [(''id'', JStr ''m3''), (''meal'', JStr ''Ramen'')]])]"
  have wf: "wfView ?v"
    by simp
  have prim: "\<not> isObject (JStr ''m2'')" "\<not> isObject (JStr ''zz'')"
    by simp_all
  show ?thesis
    using deleteMealById_removes_exactly [OF wf prim(1)]
      deleteMealById_removes_exactly [OF wf prim(2)]
    by simp
qed

text \<open>
  Claim C7: on every well-formed view model, for every (primitive) id and every edit
  that writes only \<^verbatim>\<open>meal\<close> or \<^verbatim>\<open>notes\<close>, \<^verbatim>\<open>updateMealById\<close> returns as many records in
  the same positions, each with the id it had; a record whose id differs from the given
  one is returned as it was, and when no record has the id the view model is unchanged.
\<close>

theorem updateMealById_frame:
  assumes "wfView v" and "\<not> isObject i"
    and "fst ` set (ownProps val) \<subseteq> {''meal'', ''notes''}"
  shows "\<exists>ms'. updateMealById i val v = Inr (JObj [(''meals'', JArr ms')]) \<and>
           length ms' = length (mealsOf v) \<and>
           (\<forall>k < length ms'.
              optProp (ms' ! k) ''id'' = optProp (mealsOf v ! k) ''id'' \<and>
              (optProp (mealsOf v ! k) ''id'' \<noteq> i \<longrightarrow> ms' ! k = mealsOf v ! k)) \<and>
           ((\<forall>m \<in> set (mealsOf v). optProp m ''id'' \<noteq> i) \<longrightarrow> updateMealById i val v = Inr v)"
proof -
  obtain ms where v: "v = JObj [(''meals'', JArr ms)]" and recs: "list_all isRecord ms"
    using assms(1) by (auto simp: wfView_cases)
  have noid: "''id'' \<notin> fst ` set (ownProps val)"
    using assms(3) by auto
  have upd: "updateMealById i val v = Inr (JObj [(''meals'', JArr (map (edited i val) ms))])"
    by (simp add: v updateMealById_map [OF recs])
  have ids: "\<forall>k < length ms. optProp (map (edited i val) ms ! k) ''id'' = optProp (ms ! k) ''id''"
    using recs noid by (simp add: list_all_length optProp_id_edited)
  have others: "\<forall>k < length ms. optProp (ms ! k) ''id'' \<noteq> i \<longrightarrow> map (edited i val) ms ! k = ms ! k"
    by (simp add: edited_other)
  have nomatch: "(\<forall>m \<in> set ms. optProp m ''id'' \<noteq> i) \<longrightarrow> updateMealById i val v = Inr v"
    by (simp add: upd map_edited_no_match) (simp add: v)
  show ?thesis
    using upd ids others nomatch by (simp add: v)
qed

theorem updateMealById_frame_witness:
  "wfView (JObj [(''meals'', JArr [JObj [(''id'', JStr ''m1''), (''meal'', JStr ''Tacos'')],
                                   JObj [(''id'', JStr ''m2''), (''meal'', JStr ''Pizza'')]])]) \<and>
   \<not> isObject (JStr ''m2'') \<and>
   fst ` set (ownProps (JObj [(''meal'', JStr ''Pizza bianca'')])) \<subseteq> {''meal'', ''notes''} \<and>
   updateMealById (JStr ''m2'') (JObj [(''meal'', JStr ''Pizza bianca'')])
     (JObj [(''meals'', JArr [JObj [(''id'', JStr ''m1''), (''meal'', JStr ''Tacos'')],
                              JObj [(''id'', JStr ''m2''), (''meal'', JStr ''Pizza'')]])]) =
   Inr (JObj [(''meals'', JArr [JObj [(''id'', JStr ''m1''), (''meal'', JStr ''Tacos'')],
                                JObj [(''id'', JStr ''m2''), (''meal'', JStr ''Pizza bianca'')]])]) \<and>
   updateMealById (JStr ''zz'') (JObj [(''meal'', JStr ''Pizza bianca'')])
     (JObj [(''meals'', JArr [JObj [(''id'', JStr ''m1''), (''meal'', JStr ''Tacos'')],
                              JObj [(''id'', JStr ''m2''), (''meal'', JStr ''Pizza'')]])]) =
   Inr (JObj [(''meals'', JArr [JObj [(''id'', JStr ''m1''), (''meal'', JStr ''Tacos'')],
                                JObj [(''id'', JStr ''m2''), (''meal'', JStr ''Pizza'')]])])"
proof -
  let ?v = "JObj [(''meals'', JArr [JObj [(''id'', JStr ''m1''), (''meal'', JStr ''Tacos'')],
                                   JObj [(''id'', JStr ''m2''), (''meal'', JStr ''Pizza'')]])]"
  let ?val = "JObj [(''meal'', JStr ''Pizza bianca'')]"
  have wf: "wfView ?v"
    by simp
  have prim: "\<not> isObject (JStr ''zz'')" "\<not> isObject (JStr ''m2'')"
    by simp_all
  have keys: "fst ` set (ownProps ?val) \<subseteq> {''meal'', ''notes''}"
    by simp
  have nomatch: "updateMealById (JStr ''zz'') ?val ?v = Inr ?v"
    using updateMealById_frame [OF wf prim(1) keys] by (elim exE conjE) simp
  have hit: "updateMealById (JStr ''m2'') ?val ?v =
      Inr (JObj [(''meals'', JArr [JObj [(''id'', JStr ''m1''), (''meal'', JStr ''Tacos'')],
                                   JObj [(''id'', JStr ''m2''), (''meal'', JStr ''Pizza bianca'')]])])"
    by (simp add: updateMealById_def strictEq_def spread_def spreadProps_def)
  show ?thesis
    using wf prim(2) keys hit nomatch by (intro conjI)
qed

section \<open>Uniqueness of ids\<close>




section \<open>Date labels of the rows\<close>

text \<open>
  Claim C10: on a date that is a string, \<^verbatim>\<open>null\<close> or \<^verbatim>\<open>undefined\<close>, \<^verbatim>\<open>formatDate\<close> returns
  and does not throw. The label is empty exactly when the date is absent or empty or
  does not split into three parts at its dashes; otherwise it is the platform's
  \<^verbatim>\<open>toLocaleDateString\<close>, which is not empty. An empty label is not rendered.
\<close>

theorem formatDate_total:
  assumes "dateStr = JUndefined \<or> dateStr = JNull \<or> (\<exists>s. dateStr = JStr s)"
    and "\<forall>y m d opts. toLocaleDateString api y m d opts \<noteq> []"
  shows "\<exists>lbl. formatDate api dateStr = Inr lbl \<and>
           (lbl = [] \<longleftrightarrow>
              (\<not> truthy dateStr \<or>
               (\<exists>s. dateStr = JStr s \<and> length (splitOn (CHR ''-'') s) \<noteq> 3))) \<and>
           (dateShown lbl \<longleftrightarrow> lbl \<noteq> [])"
  using assms by (auto simp: formatDate_def dateShown_def Let_def)

theorem formatDate_total_witness:
  "formatDate \<lparr>fullYear = (\<lambda>y m d. y), currentYear = 2025,
                toLocaleDateString = (\<lambda>y m d opts. case y of None \<Rightarrow> ''Invalid Date''
                   | Some yy \<Rightarrow> numToString 10 yy @ ''/'' @ numToString 10 (m + 1) @ ''/'' @
                       numToString 10 d)\<rparr> JNull = Inr [] \<and>
   formatDate \<lparr>fullYear = (\<lambda>y m d. y), currentYear = 2025,
                toLocaleDateString = (\<lambda>y m d opts. case y of None \<Rightarrow> ''Invalid Date''
                   | Some yy \<Rightarrow> numToString 10 yy @ ''/'' @ numToString 10 (m + 1) @ ''/'' @
                       numToString 10 d)\<rparr> (JStr ''2025-12'') = Inr [] \<and>
   formatDate \<lparr>fullYear = (\<lambda>y m d. y), currentYear = 2025,
                toLocaleDateString = (\<lambda>y m d opts. case y of None \<Rightarrow> ''Invalid Date''
                   | Some yy \<Rightarrow> numToString 10 yy @ ''/'' @ numToString 10 (m + 1) @ ''/'' @
                       numToString 10 d)\<rparr> (JStr ''2025-12-01'') = Inr ''2025/12/1'' \<and>
   formatDate \<lparr>fullYear = (\<lambda>y m d. y), currentYear = 2025,
                toLocaleDateString = (\<lambda>y m d opts. case y of None \<Rightarrow> ''Invalid Date''
                   | Some yy \<Rightarrow> numToString 10 yy @ ''/'' @ numToString 10 (m + 1) @ ''/'' @
                       numToString 10 d)\<rparr> (JStr ''a-b-c'') = Inr ''Invalid Date'' \<and>
   \<not> dateShown []"
proof -
  let ?api = "\<lparr>fullYear = (\<lambda>y m d. y), currentYear = 2025,
                toLocaleDateString = (\<lambda>y m d opts. case y of None \<Rightarrow> ''Invalid Date''
                   | Some yy \<Rightarrow> numToString 10 yy @ ''/'' @ numToString 10 (m + 1) @ ''/'' @
                       numToString 10 d)\<rparr>"
  have nonempty: "\<forall>y m d opts. toLocaleDateString ?api y m d opts \<noteq> []"
    by (simp add: numToString_def digits_nonempty split: option.splits)
  have absent: "JNull = JUndefined \<or> JNull = JNull \<or> (\<exists>s. JNull = JStr s)"
    by simp
  have a: "formatDate ?api JNull = Inr []" and "\<not> dateShown []"
    using formatDate_total [OF absent nonempty] by (auto simp: dateShown_def)
  moreover have "formatDate ?api (JStr ''2025-12'') = Inr []"
    by (simp add: formatDate_def)
  moreover have "formatDate ?api (JStr ''2025-12-01'') = Inr ''2025/12/1''"
    by (simp add: formatDate_def parseInt_def isWhiteSpace_def isDigit_def digitValue_def
        orOne_def numToString_def digits.simps digitChar_def Let_def upt_rec)
  moreover have "formatDate ?api (JStr ''a-b-c'') = Inr ''Invalid Date''"
    by (simp add: formatDate_def parseInt_def isWhiteSpace_def isDigit_def digitValue_def
        orOne_def Let_def upt_rec)
  ultimately show ?thesis
    by (intro conjI)
qed

end
